theory Spec2Isabelle
  imports Main
begin

section \<open>The secret store of \<open>dynamo.go\<close>\<close>

text \<open>
  The package keeps one-time secrets in a DynamoDB table. This theory embeds its
  functions \<open>NewSecret\<close>, \<open>NewId\<close>, \<open>SetTimeout\<close>, \<open>Save\<close> and \<open>Reveal\<close> as HOL
  functions. Everything the Go code takes from outside is explicit: the clock is an
  argument, the table is a state that is passed along and returned, and whether a call
  into the AWS SDK or the JSON package fails is decided by the state.
\<close>

subsection \<open>Errors\<close>

text \<open>
  A Go \<open>error\<close> is modelled by how it was made. \<open>errors_New m\<close> is \<open>errors.New(m)\<close> with
  the literal message \<open>m\<close>; \<open>could_not_decode\<close> is the error of line 176, whose message
  is \<open>could not decode secret\<close> followed by the text of the base64 package's error;
  \<open>awserr m\<close> is an error that a library call (the SDK, the marshallers) returned and
  that the code hands on as it is.
\<close>

datatype error =
    errors_New string
  | could_not_decode
  | awserr string

subsection \<open>The record and the response\<close>

text \<open>
  The struct \<open>Secret\<close>. \<open>Expire\<close> is an \<open>int64\<close> and \<open>Hours\<close> an \<open>int\<close>; both are
  modelled as unbounded integers, since the only arithmetic on them adds at most 72
  hours to the present time. \<open>Err\<close> is \<open>None\<close> for Go's \<open>nil\<close>.
\<close>

record Secret =
  Secret :: string
  Expire :: int
  Hours :: int
  Message :: string
  Ip :: string
  HasPass :: bool
  Hint :: string
  Err :: "error option"
  Tag :: string
  Iv :: string
  PwTag :: string
  PwIv :: string

text \<open>The zero value \<open>Secret{}\<close>.\<close>

definition Secret_zero :: Secret where
  "Secret_zero = \<lparr>Secret = [], Expire = 0, Hours = 0, Message = [], Ip = [],
     HasPass = False, Hint = [], Err = None, Tag = [], Iv = [], PwTag = [], PwIv = []\<rparr>"

text \<open>
  The struct \<open>Revealed\<close>. Its fields carry the prefix \<open>Revealed_\<close>, because a field name
  can belong to one record only.
\<close>

record Revealed =
  Revealed_Secret :: string
  Revealed_Exists :: bool
  Revealed_HasPass :: bool
  Revealed_Hint :: string
  Revealed_Tag :: string
  Revealed_Iv :: string
  Revealed_PwTag :: string
  Revealed_PwIv :: string

text \<open>The zero value of the named result \<open>revealed\<close>.\<close>

definition Revealed_zero :: Revealed where
  "Revealed_zero = \<lparr>Revealed_Secret = [], Revealed_Exists = False,
     Revealed_HasPass = False, Revealed_Hint = [], Revealed_Tag = [], Revealed_Iv = [],
     Revealed_PwTag = [], Revealed_PwIv = []\<rparr>"

subsection \<open>Time\<close>

text \<open>
  An instant (\<open>time.Time\<close>) is its number of nanoseconds since the Unix epoch, a
  \<open>time.Duration\<close> a number of nanoseconds. \<open>Unix\<close> is \<open>Time.Unix()\<close>: the whole seconds
  since the epoch, rounded down.
\<close>

type_synonym Time = int
type_synonym Duration = int

definition Hour :: Duration where
  "Hour = 3600 * 1000000000"

definition Add :: "Time \<Rightarrow> Duration \<Rightarrow> Time" where
  "Add t d = t + d"

definition Unix :: "Time \<Rightarrow> int" where
  "Unix t = t div 1000000000"

subsection \<open>Creating a record and setting its lifetime\<close>

text \<open>
  \<open>GetRandomId\<close> is not part of \<open>dynamo.go\<close>; the pair it returned (an identifier
  and an error, \<open>None\<close> for \<open>nil\<close>) is the argument \<open>rid\<close>. \<open>now\<close> is what
  \<open>time.Now()\<close> returned.
\<close>

definition NewSecret :: "Time \<Rightarrow> string \<times> error option \<Rightarrow> Secret" where
  "NewSecret now rid =
     (let s = Secret_zero\<lparr>Expire := Unix (Add now (Hour * 72))\<rparr>
      in case snd rid of
           Some err \<Rightarrow> s\<lparr>Err := Some err\<rparr>
         | None \<Rightarrow> s\<lparr>Secret := fst rid\<rparr>)"

text \<open>
  \<open>NewId\<close> assigns both results of \<open>GetRandomId\<close>: the identifier is stored also when
  an error comes with it.
\<close>

definition NewId :: "string \<times> error option \<Rightarrow> Secret \<Rightarrow> Secret \<times> error option" where
  "NewId rid s = (s\<lparr>Secret := fst rid\<rparr>, snd rid)"

text \<open>\<open>SetTimeout\<close> reads the lifetime from the field \<open>Hours\<close> of the record.\<close>

definition SetTimeout :: "Time \<Rightarrow> Secret \<Rightarrow> Secret \<times> error option" where
  "SetTimeout now s =
     (if Hours s < 1 \<or> Hours s > 72 then (s, Some (errors_New ''invalid expiration''))
      else (s\<lparr>Expire := Unix (Add now (Hour * Hours s))\<rparr>, None))"

subsection \<open>The identifier check\<close>

text \<open>
  \<open>regexp.MatchString\<close> with the pattern \<open>\W|[g-zA-Z]\<close> reports whether the string has a
  place where the pattern matches: a character that is not a word character (a word
  character is one of \<open>0-9\<close>, \<open>A-Z\<close>, \<open>a-z\<close> and the underscore), or a letter in
  \<open>g-z\<close> or \<open>A-Z\<close>. A Go string is a sequence of bytes and so is a \<open>string\<close> here; a byte
  from 128 on belongs to no ASCII character, so it is not a word character.
\<close>

definition in_range :: "char \<Rightarrow> char \<Rightarrow> char \<Rightarrow> bool" where
  "in_range lo hi c = ((of_char lo :: nat) \<le> of_char c \<and> (of_char c :: nat) \<le> of_char hi)"

definition word_char :: "char \<Rightarrow> bool" where
  "word_char c =
     (in_range CHR ''0'' CHR ''9'' c \<or> in_range CHR ''A'' CHR ''Z'' c \<or>
      in_range CHR ''a'' CHR ''z'' c \<or> c = CHR ''_'')"

definition non_word_char :: "char \<Rightarrow> bool" where
  "non_word_char c = (\<not> word_char c)"

definition pattern_char :: "char \<Rightarrow> bool" where
  "pattern_char c =
     (non_word_char c \<or> in_range CHR ''g'' CHR ''z'' c \<or> in_range CHR ''A'' CHR ''Z'' c)"

definition MatchString :: "string \<Rightarrow> bool" where
  "MatchString ident = list_ex pattern_char ident"

subsection \<open>The transport encoding\<close>

text \<open>
  \<open>base64.StdEncoding.DecodeString\<close> of Go's standard library: the alphabet \<open>A-Z\<close>,
  \<open>a-z\<close>, \<open>0-9\<close>, \<open>+\<close>, \<open>/\<close>, with \<open>=\<close> as padding. Carriage returns and line feeds
  are skipped; the rest is read four characters at a time, and only the last four may
  end in one or two padding characters. The result is \<open>None\<close> where Go returns an
  error, and the decoded bytes (numbers below 256) otherwise.
\<close>

definition decodeMap :: "char \<Rightarrow> nat option" where
  "decodeMap c =
     (if in_range CHR ''A'' CHR ''Z'' c then Some (of_char c - 65)
      else if in_range CHR ''a'' CHR ''z'' c then Some (of_char c - 71)
      else if in_range CHR ''0'' CHR ''9'' c then Some (of_char c + 4)
      else if c = CHR ''+'' then Some 62
      else if c = CHR ''/'' then Some 63
      else None)"

definition quantum :: "nat \<Rightarrow> nat \<Rightarrow> nat \<Rightarrow> nat \<Rightarrow> nat list" where
  "quantum a b c d =
     (let val = a * 262144 + b * 4096 + c * 64 + d
      in [val div 65536 mod 256, val div 256 mod 256, val mod 256])"

fun decode_quanta :: "string \<Rightarrow> nat list option" where
  "decode_quanta [] = Some []"
| "decode_quanta (a # b # c # d # rest) =
     (case (decodeMap a, decodeMap b) of
        (Some x, Some y) \<Rightarrow>
          if c = CHR ''='' then
            (if d = CHR ''='' \<and> rest = [] then Some (take 1 (quantum x y 0 0)) else None)
          else
            (case decodeMap c of
               None \<Rightarrow> None
             | Some z \<Rightarrow>
                 if d = CHR ''='' then
                   (if rest = [] then Some (take 2 (quantum x y z 0)) else None)
                 else
                   (case decodeMap d of
                      None \<Rightarrow> None
                    | Some w \<Rightarrow> map_option (\<lambda>bs. quantum x y z w @ bs) (decode_quanta rest)))
      | _ \<Rightarrow> None)"
| "decode_quanta _ = None"

definition DecodeString :: "string \<Rightarrow> nat list option" where
  "DecodeString s =
     decode_quanta (filter (\<lambda>c. c \<noteq> CHR 0x0A \<and> c \<noteq> CHR 0x0D) s)"

subsection \<open>The table\<close>

text \<open>
  The calls that leave the package and can return an error: the three requests to
  DynamoDB and the three conversions around them.
\<close>

datatype call =
    MarshalMap Secret
  | PutItem Secret
  | Query string
  | UnmarshalListOfMaps "Secret list"
  | json_Marshal Secret
  | DeleteItem string

text \<open>
  The state of the table. \<open>items\<close> maps a partition key (the attribute \<open>secret\<close>) to the
  item stored under it; an item is written as the \<open>Secret\<close> whose fields it holds.
  \<open>fails\<close> says which calls return an error, and with which message: it stands for
  everything the package cannot control (the network, the service, the environment).
  \<open>requests\<close> is the list of the requests sent to DynamoDB so far, oldest first.
  The service removes an item some time after its \<open>Expire\<close> has passed; the model has
  no clock of its own and leaves that out, so an item stays until it is deleted.

  \<open>newClient\<close> reads the table's name and the region from the environment; both \<open>Save\<close>
  and \<open>Reveal\<close> call it, and the model has the one table they agree on. The error
  \<open>newClient\<close> returns is its named result \<open>err\<close>, which nothing assigns: it is always
  \<open>nil\<close>, as \<open>newClient_err\<close> says.
\<close>

record dynamo =
  items :: "string \<rightharpoonup> Secret"
  fails :: "call \<Rightarrow> string option"
  requests :: "call list"

definition newClient_err :: "error option" where
  "newClient_err = None"

text \<open>The error that a call returns on a table, \<open>None\<close> for \<open>nil\<close>.\<close>

definition returned :: "dynamo \<Rightarrow> call \<Rightarrow> error option" where
  "returned db c = map_option awserr (fails db c)"

text \<open>A request is recorded when it is sent; one that fails leaves the items as they were.\<close>

definition db_PutItem :: "Secret \<Rightarrow> dynamo \<Rightarrow> error option \<times> dynamo" where
  "db_PutItem j db =
     (let db1 = db\<lparr>requests := requests db @ [PutItem j]\<rparr>
      in case returned db (PutItem j) of
           Some err \<Rightarrow> (Some err, db1)
         | None \<Rightarrow> (None, db1\<lparr>items := (items db)(Secret j \<mapsto> j)\<rparr>))"

definition db_Query :: "string \<Rightarrow> dynamo \<Rightarrow> (error + Secret list) \<times> dynamo" where
  "db_Query k db =
     (let db1 = db\<lparr>requests := requests db @ [Query k]\<rparr>
      in case returned db (Query k) of
           Some err \<Rightarrow> (Inl err, db1)
         | None \<Rightarrow> (Inr (case items db k of None \<Rightarrow> [] | Some j \<Rightarrow> [j]), db1))"

definition db_DeleteItem :: "string \<Rightarrow> dynamo \<Rightarrow> error option \<times> dynamo" where
  "db_DeleteItem k db =
     (let db1 = db\<lparr>requests := requests db @ [DeleteItem k]\<rparr>
      in case returned db (DeleteItem k) of
           Some err \<Rightarrow> (Some err, db1)
         | None \<Rightarrow> (None, db1\<lparr>items := (items db)(k := None)\<rparr>))"

text \<open>The requests sent between two states of the table.\<close>

definition issued :: "dynamo \<Rightarrow> dynamo \<Rightarrow> call list" where
  "issued db db' = drop (length (requests db)) (requests db')"

text \<open>
  \<open>Reveal\<close> turns the first item of the result into a \<open>Secret\<close> in three steps:
  \<open>UnmarshalListOfMaps\<close>, \<open>json.Marshal\<close> and \<open>json.Unmarshal\<close>. Where they return no
  error they are taken to give back the fields as \<open>Save\<close> has written them. The
  exception is \<open>Err\<close>: it has the interface type \<open>error\<close>, which \<open>json.Unmarshal\<close> (line
  157; its own error is dropped) cannot fill, so it is \<open>nil\<close> in what \<open>Reveal\<close> reads.
\<close>

definition json_Unmarshal :: "Secret \<Rightarrow> Secret" where
  "json_Unmarshal j = j\<lparr>Err := None\<rparr>"

subsection \<open>Save\<close>

text \<open>
  \<open>Save\<close> changes the record before it writes it, so it returns the record with the
  error.
\<close>

definition Save :: "Time \<Rightarrow> string \<Rightarrow> Secret \<Rightarrow> dynamo \<Rightarrow> (Secret \<times> error option) \<times> dynamo" where
  "Save now b64EncSecret s0 db =
     (let s1 = (if Expire s0 = 0 then s0\<lparr>Expire := Unix (Add now (Hour * 24))\<rparr> else s0);
          s = s1\<lparr>Message := b64EncSecret\<rparr>
      in case newClient_err of
           Some err \<Rightarrow> ((s, Some err), db)
         | None \<Rightarrow>
             (case returned db (MarshalMap s) of
                Some err \<Rightarrow> ((s, Some err), db)
              | None \<Rightarrow> (case db_PutItem s db of (err, db') \<Rightarrow> ((s, err), db'))))"

subsection \<open>Reveal\<close>

text \<open>
  \<open>ip\<close> is the text \<open>ip.String()\<close> of the requester's address, the only use \<open>Reveal\<close>
  makes of it. The result is the pair Go returns, and the table after the call.
\<close>

definition Reveal :: "string \<Rightarrow> string \<Rightarrow> bool \<Rightarrow> dynamo \<Rightarrow> (Revealed \<times> error option) \<times> dynamo" where
  "Reveal ident ip reveal db =
     (let revealed = Revealed_zero;
          notHex = MatchString ident
      in if length ident \<noteq> 16 \<or> notHex then ((revealed, Some (errors_New ''bad id'')), db)
      else
        (case db_Query ident db of
           (Inl err, db1) \<Rightarrow> ((revealed, Some err), db1)
         | (Inr result, db1) \<Rightarrow>
        (case returned db1 (UnmarshalListOfMaps result) of
           Some err \<Rightarrow> ((revealed, Some err), db1)
         | None \<Rightarrow>
        (case result of
           [] \<Rightarrow> ((revealed, Some (errors_New ''no items found'')), db1)
         | r0 # _ \<Rightarrow>
        (case returned db1 (json_Marshal r0) of
           Some err \<Rightarrow> ((revealed, Some err), db1)
         | None \<Rightarrow>
        (let s = json_Unmarshal r0
         in if length (Ip s) > 0 \<and> Ip s \<noteq> ip then
              ((revealed, Some (errors_New ''not found'')), db1)
            else if \<not> reveal then
              (if Secret s = ident then ((revealed\<lparr>Revealed_Exists := True\<rparr>, None), db1)
               else ((revealed, None), db1))
            else
        (case DecodeString (Message s) of
           None \<Rightarrow> ((revealed, Some could_not_decode), db1)
         | Some secret \<Rightarrow>
            if length secret = 0 then
              ((revealed,
                Some (errors_New ''could not decode secret, got 0 chars and error: <nil>'')), db1)
            else
        (case db_DeleteItem ident db1 of
           (Some err, db2) \<Rightarrow> ((revealed, Some err), db2)
         | (None, db2) \<Rightarrow>
             ((revealed\<lparr>Revealed_Secret := Message s, Revealed_Exists := True,
                 Revealed_Hint := Hint s, Revealed_HasPass := HasPass s,
                 Revealed_Tag := Tag s, Revealed_Iv := Iv s,
                 Revealed_PwTag := PwTag s, Revealed_PwIv := PwIv s\<rparr>, None), db2)))))))))"

subsection \<open>Notions used to state the properties\<close>

text \<open>
  \<open>looked_up ident ip db j\<close>: a call of \<open>Reveal\<close> with \<open>ident\<close> and \<open>ip\<close> on the table \<open>db\<close>
  gets past the identifier check, the lookup and the origin check, and \<open>j\<close> is the item
  it has found. That is: the identifier is accepted, the query and the two conversions
  return no error, \<open>j\<close> is stored under \<open>ident\<close>, and the origin address of \<open>j\<close> is empty
  or the requester's.
\<close>

definition looked_up :: "string \<Rightarrow> string \<Rightarrow> dynamo \<Rightarrow> Secret \<Rightarrow> bool" where
  "looked_up ident ip db j =
     (length ident = 16 \<and> \<not> MatchString ident \<and>
      fails db (Query ident) = None \<and> items db ident = Some j \<and>
      fails db (UnmarshalListOfMaps [j]) = None \<and> fails db (json_Marshal j) = None \<and>
      (Ip j = [] \<or> Ip j = ip))"

text \<open>
  A table that holds the given items, each under its own identifier, on which no call
  fails and to which no request has been sent: the starting point of the examples.
\<close>

definition table_of :: "Secret list \<Rightarrow> dynamo" where
  "table_of js =
     \<lparr>items = map_of (map (\<lambda>j. (Secret j, j)) js), fails = (\<lambda>c. None), requests = []\<rparr>"

text \<open>
  The character classes the specification speaks of: the lowercase hexadecimal digits
  \<open>[0-9a-f]\<close>, and the hexadecimal digits of either case \<open>[0-9a-fA-F]\<close>.
\<close>

definition lower_hex_digit :: "char \<Rightarrow> bool" where
  "lower_hex_digit c = (in_range CHR ''0'' CHR ''9'' c \<or> in_range CHR ''a'' CHR ''f'' c)"

definition hex_digit :: "char \<Rightarrow> bool" where
  "hex_digit c = (lower_hex_digit c \<or> in_range CHR ''A'' CHR ''F'' c)"

section \<open>Properties\<close>

lemma Unix_Add_Hour: "Unix (Add now (Hour * h)) = Unix now + 3600 * h"
proof -
  have "now + 3600 * 1000000000 * h = now + (3600 * h) * 1000000000"
    by simp
  then have "(now + 3600 * 1000000000 * h) div 1000000000 = now div 1000000000 + 3600 * h"
    by (simp only: div_mult_self1 [of 1000000000 now "3600 * h"])
  then show ?thesis
    by (simp add: Unix_def Add_def Hour_def)
qed

subsection \<open>What Reveal does, case by case\<close>

lemma Reveal_bad_id:
  "length ident \<noteq> 16 \<or> MatchString ident \<Longrightarrow>
   Reveal ident ip reveal db = ((Revealed_zero, Some (errors_New ''bad id'')), db)"
  by (auto simp: Reveal_def)

lemma Reveal_absent:
  assumes "length ident = 16" and "\<not> MatchString ident"
    and "fails db (Query ident) = None" and "items db ident = None"
    and "fails db (UnmarshalListOfMaps []) = None"
  shows "Reveal ident ip reveal db =
     ((Revealed_zero, Some (errors_New ''no items found'')),
      db\<lparr>requests := requests db @ [Query ident]\<rparr>)"
  using assms by (simp add: Reveal_def db_Query_def returned_def)

lemma Reveal_mismatch:
  assumes "length ident = 16" and "\<not> MatchString ident"
    and "fails db (Query ident) = None" and "items db ident = Some j"
    and "fails db (UnmarshalListOfMaps [j]) = None" and "fails db (json_Marshal j) = None"
    and "Ip j \<noteq> []" and "Ip j \<noteq> ip"
  shows "Reveal ident ip reveal db =
     ((Revealed_zero, Some (errors_New ''not found'')),
      db\<lparr>requests := requests db @ [Query ident]\<rparr>)"
  using assms by (simp add: Reveal_def db_Query_def returned_def json_Unmarshal_def)

lemma Reveal_check:
  assumes "looked_up ident ip db j"
  shows "Reveal ident ip False db =
     ((if Secret j = ident then Revealed_zero\<lparr>Revealed_Exists := True\<rparr> else Revealed_zero, None),
      db\<lparr>requests := requests db @ [Query ident]\<rparr>)"
  using assms
  by (auto simp: looked_up_def Reveal_def db_Query_def returned_def json_Unmarshal_def Let_def)

lemma Reveal_consume:
  assumes "looked_up ident ip db j"
  shows "Reveal ident ip True db =
     (case DecodeString (Message j) of
        None \<Rightarrow>
          ((Revealed_zero, Some could_not_decode), db\<lparr>requests := requests db @ [Query ident]\<rparr>)
      | Some secret \<Rightarrow>
          if secret = [] then
            ((Revealed_zero,
              Some (errors_New ''could not decode secret, got 0 chars and error: <nil>'')),
             db\<lparr>requests := requests db @ [Query ident]\<rparr>)
          else
            (case fails db (DeleteItem ident) of
               Some m \<Rightarrow>
                 ((Revealed_zero, Some (awserr m)),
                  db\<lparr>requests := requests db @ [Query ident, DeleteItem ident]\<rparr>)
             | None \<Rightarrow>
                 ((\<lparr>Revealed_Secret = Message j, Revealed_Exists = True,
                    Revealed_HasPass = HasPass j, Revealed_Hint = Hint j, Revealed_Tag = Tag j,
                    Revealed_Iv = Iv j, Revealed_PwTag = PwTag j, Revealed_PwIv = PwIv j\<rparr>, None),
                  db\<lparr>requests := requests db @ [Query ident, DeleteItem ident],
                     items := (items db)(ident := None)\<rparr>)))"
  using assms
  by (auto simp: looked_up_def Reveal_def db_Query_def db_DeleteItem_def returned_def
      json_Unmarshal_def Revealed_zero_def split: option.splits)

lemma issued_append: "issued db (db\<lparr>requests := requests db @ cs\<rparr>) = cs"
  by (simp add: issued_def)

lemma issued_append_items: "issued db (db\<lparr>requests := requests db @ cs, items := m\<rparr>) = cs"
  by (simp add: issued_def)

lemma issued_same: "issued db db = []"
  by (simp add: issued_def)

lemma DecodeString_Nil: "DecodeString [] = Some []"
  by (simp add: DecodeString_def)

lemma Reveal_queries_first:
  assumes "length ident = 16" and "\<not> MatchString ident"
  shows "\<exists>rest. issued db (snd (Reveal ident ip reveal db)) = Query ident # rest"
  using assms
  by (auto simp: Reveal_def db_Query_def db_DeleteItem_def returned_def Let_def issued_def
      split: option.splits list.splits)

lemma Reveal_not_bad_id:
  assumes "length ident = 16" and "\<not> MatchString ident"
  shows "snd (fst (Reveal ident ip reveal db)) \<noteq> Some (errors_New ''bad id'')"
  using assms
  by (auto simp: Reveal_def db_Query_def db_DeleteItem_def returned_def Let_def
      split: option.splits list.splits)

lemma Reveal_False_frame:
  "items (snd (Reveal ident ip False db)) = items db \<and>
   (issued db (snd (Reveal ident ip False db)) = [] \<or>
    issued db (snd (Reveal ident ip False db)) = [Query ident])"
  by (auto simp: Reveal_def db_Query_def returned_def Let_def issued_def
      split: option.splits list.splits)

lemma list_ex_letter_MatchString:
  "list_ex (\<lambda>c. in_range CHR ''g'' CHR ''z'' c \<or> in_range CHR ''A'' CHR ''Z'' c) ident \<Longrightarrow>
   MatchString ident"
  by (auto simp: MatchString_def pattern_char_def list_ex_iff)

lemma lower_hex_not_pattern: "lower_hex_digit c \<Longrightarrow> \<not> pattern_char c"
  by (auto simp: lower_hex_digit_def pattern_char_def non_word_char_def word_char_def in_range_def)

lemma lower_hex_not_MatchString: "list_all lower_hex_digit ident \<Longrightarrow> \<not> MatchString ident"
  by (auto simp: MatchString_def list_ex_iff list_all_iff lower_hex_not_pattern)

lemma upper_hex_MatchString:
  "list_ex (in_range CHR ''A'' CHR ''F'') ident \<Longrightarrow> MatchString ident"
  by (auto simp: MatchString_def pattern_char_def list_ex_iff in_range_def)

lemma Reveal_success:
  assumes "snd (fst (Reveal ident ip True db)) = None"
  shows "issued db (snd (Reveal ident ip True db)) = [Query ident, DeleteItem ident] \<and>
     Revealed_Exists (fst (fst (Reveal ident ip True db))) \<and>
     (\<exists>secret. DecodeString (Revealed_Secret (fst (fst (Reveal ident ip True db)))) = Some secret \<and>
        secret \<noteq> [])"
  using assms
  by (auto simp: Reveal_def db_Query_def db_DeleteItem_def returned_def Let_def issued_def
      json_Unmarshal_def split: option.splits list.splits if_splits)

subsection \<open>What Save does\<close>

lemma Save_record:
  "fst (fst (Save now P s db)) =
     (if Expire s = 0 then s\<lparr>Expire := Unix now + 24 * 3600\<rparr> else s)\<lparr>Message := P\<rparr>"
  by (simp add: Save_def newClient_err_def db_PutItem_def Let_def Unix_Add_Hour
      split: option.splits)

lemma Save_stores:
  assumes "fails db = (\<lambda>c. None)"
  shows "snd (fst (Save now P s db)) = None \<and>
     fails (snd (Save now P s db)) = (\<lambda>c. None) \<and>
     items (snd (Save now P s db)) = (items db)(Secret s \<mapsto> fst (fst (Save now P s db)))"
  using assms
  by (simp add: Save_def newClient_err_def db_PutItem_def returned_def Let_def)

lemma Save_written:
  assumes "snd (fst (Save now P s db)) = None"
  shows "items (snd (Save now P s db)) (Secret s) = Some (fst (fst (Save now P s db)))"
  using assms
  by (cases "Expire s = 0")
    (auto simp: Save_def newClient_err_def db_PutItem_def returned_def Let_def
      split: option.splits)

lemma Save_Message: "Message (fst (fst (Save now P s db))) = P"
  by (simp add: Save_record)

lemma Save_looked_up:
  assumes "length (Secret s) = 16" and "\<not> MatchString (Secret s)"
    and "Ip s = [] \<or> Ip s = ip" and "fails db = (\<lambda>c. None)"
  shows "looked_up (Secret s) ip (snd (Save now P s db)) (fst (fst (Save now P s db)))"
  using assms(1-3) Save_stores [OF assms(4), of now P s]
  by (simp add: looked_up_def Save_record)

text \<open>The definitions that evaluating the identifier check and the decoder unfolds.\<close>

lemmas check_defs = MatchString_def pattern_char_def non_word_char_def word_char_def in_range_def

lemmas decode_defs = DecodeString_def decodeMap_def in_range_def quantum_def

subsection \<open>SetTimeout\<close>

text \<open>
  C6. With an hour count \<open>h\<close> between 1 and 72 in the field \<open>Hours\<close>, \<open>SetTimeout\<close>
  succeeds and sets \<open>Expire\<close> to the Unix time of the present instant plus \<open>h\<close> hours
  (3600 seconds each), changing no other field. With \<open>h \<le> 0\<close> or \<open>h > 72\<close> it returns
  the error \<open>invalid expiration\<close> and the record is as it was, \<open>Expire\<close> included.
\<close>

theorem SetTimeout_sets_or_rejects:
  "(1 \<le> Hours s \<and> Hours s \<le> 72 \<longrightarrow>
      SetTimeout now s = (s\<lparr>Expire := Unix now + 3600 * Hours s\<rparr>, None)) \<and>
   (Hours s \<le> 0 \<or> 72 < Hours s \<longrightarrow>
      SetTimeout now s = (s, Some (errors_New ''invalid expiration'')))"
  by (auto simp: SetTimeout_def Unix_Add_Hour)

theorem SetTimeout_sets_or_rejects_witness:
  "SetTimeout 1700000000123456789 (Secret_zero\<lparr>Hours := 24, Expire := 5\<rparr>) =
     (Secret_zero\<lparr>Hours := 24, Expire := 1700086400\<rparr>, None) \<and>
   SetTimeout 1700000000123456789 (Secret_zero\<lparr>Hours := 73, Expire := 5\<rparr>) =
     (Secret_zero\<lparr>Hours := 73, Expire := 5\<rparr>, Some (errors_New ''invalid expiration'')) \<and>
   SetTimeout 1700000000123456789 (Secret_zero\<lparr>Hours := 0, Expire := 5\<rparr>) =
     (Secret_zero\<lparr>Hours := 0, Expire := 5\<rparr>, Some (errors_New ''invalid expiration''))"
  using SetTimeout_sets_or_rejects [of "Secret_zero\<lparr>Hours := 24, Expire := 5\<rparr>" 1700000000123456789]
    SetTimeout_sets_or_rejects [of "Secret_zero\<lparr>Hours := 73, Expire := 5\<rparr>" 1700000000123456789]
    SetTimeout_sets_or_rejects [of "Secret_zero\<lparr>Hours := 0, Expire := 5\<rparr>" 1700000000123456789]
  by (simp add: Unix_def)

subsection \<open>Reveal: a failed delete\<close>

text \<open>
  C2. In destructive mode (\<open>reveal = True\<close>), when the call gets as far as the delete
  (the item is found, the origin check passes, the stored payload decodes to at least one
  byte) and the delete fails, \<open>Reveal\<close> returns the error of the delete as it is, and the
  response is the zero value: its field \<open>Secret\<close> is empty.
\<close>

theorem Reveal_suppresses_payload:
  assumes "looked_up ident ip db j"
    and "DecodeString (Message j) = Some secret" and "secret \<noteq> []"
    and "fails db (DeleteItem ident) = Some m"
  shows "fst (Reveal ident ip True db) = (Revealed_zero, Some (awserr m)) \<and>
         Revealed_Secret (fst (fst (Reveal ident ip True db))) = []"
  using assms by (simp add: Reveal_consume Revealed_zero_def)

theorem Reveal_suppresses_payload_witness:
  "fst (Reveal ''0123456789abcdef'' ''10.0.0.1'' True
      ((table_of [Secret_zero\<lparr>Secret := ''0123456789abcdef'', Message := ''aGk=''\<rparr>])
         \<lparr>fails := (\<lambda>c. if c = DeleteItem ''0123456789abcdef'' then Some ''timeout'' else None)\<rparr>))
   = (Revealed_zero, Some (awserr ''timeout''))"
proof -
  let ?j = "Secret_zero\<lparr>Secret := ''0123456789abcdef'', Message := ''aGk=''\<rparr>"
  let ?db = "(table_of [?j])
         \<lparr>fails := (\<lambda>c. if c = DeleteItem ''0123456789abcdef'' then Some ''timeout'' else None)\<rparr>"
  have found: "looked_up ''0123456789abcdef'' ''10.0.0.1'' ?db ?j"
    by (simp add: looked_up_def table_of_def Secret_zero_def check_defs)
  have decoded: "DecodeString (Message ?j) = Some [104, 105]"
    by (simp add: decode_defs)
  have fault: "fails ?db (DeleteItem ''0123456789abcdef'') = Some ''timeout''"
    by (simp add: table_of_def)
  from Reveal_suppresses_payload [OF found decoded _ fault] show ?thesis
    by simp
qed

subsection \<open>Reveal: the identifier check\<close>

text \<open>
  C8. An identifier whose length is not 16, or that contains a letter in \<open>g-z\<close> or an
  uppercase letter in \<open>A-Z\<close>, makes \<open>Reveal\<close> return the error \<open>bad id\<close> at once: the
  table is returned as it was, and no request has been sent to it.
\<close>

theorem Reveal_rejects_malformed_id:
  assumes "length ident \<noteq> 16 \<or>
     list_ex (\<lambda>c. in_range CHR ''g'' CHR ''z'' c \<or> in_range CHR ''A'' CHR ''Z'' c) ident"
  shows "Reveal ident ip reveal db = ((Revealed_zero, Some (errors_New ''bad id'')), db) \<and>
         issued db (snd (Reveal ident ip reveal db)) = []"
proof -
  from assms have "length ident \<noteq> 16 \<or> MatchString ident"
    using list_ex_letter_MatchString by blast
  then have "Reveal ident ip reveal db = ((Revealed_zero, Some (errors_New ''bad id'')), db)"
    by (rule Reveal_bad_id)
  then show ?thesis
    by (simp add: issued_same)
qed

theorem Reveal_rejects_malformed_id_witness:
  "Reveal ''0123456789abcde'' ''10.0.0.1'' True (table_of []) =
     ((Revealed_zero, Some (errors_New ''bad id'')), table_of []) \<and>
   Reveal ''0123456789abcdeg'' ''10.0.0.1'' True (table_of []) =
     ((Revealed_zero, Some (errors_New ''bad id'')), table_of []) \<and>
   Reveal ''0123456789ABCDEF'' ''10.0.0.1'' False (table_of []) =
     ((Revealed_zero, Some (errors_New ''bad id'')), table_of [])"
proof -
  have short: "length ''0123456789abcde'' \<noteq> 16"
    by simp
  have lower: "list_ex (\<lambda>c. in_range CHR ''g'' CHR ''z'' c \<or> in_range CHR ''A'' CHR ''Z'' c)
     ''0123456789abcdeg''"
    by (simp add: in_range_def)
  have upper: "list_ex (\<lambda>c. in_range CHR ''g'' CHR ''z'' c \<or> in_range CHR ''A'' CHR ''Z'' c)
     ''0123456789ABCDEF''"
    by (simp add: in_range_def)
  show ?thesis
    using Reveal_rejects_malformed_id [OF disjI1, OF short, of "''10.0.0.1''" True "table_of []"]
      Reveal_rejects_malformed_id [OF disjI2, OF lower, of "''10.0.0.1''" True "table_of []"]
      Reveal_rejects_malformed_id [OF disjI2, OF upper, of "''10.0.0.1''" False "table_of []"]
    by simp
qed

text \<open>
  C9, as the specification has it, says that a 16-character identifier of hexadecimal
  digits of either case, the uppercase \<open>A-F\<close> included, passes the check. It does not: the
  class \<open>[g-zA-Z]\<close> of the pattern holds every uppercase letter, so the identifier
  \<open>0123456789ABCDEF\<close> is refused with \<open>bad id\<close>, and the table is not asked.
\<close>

theorem uppercase_hex_is_rejected:
  "length ''0123456789ABCDEF'' = 16 \<and> list_all hex_digit ''0123456789ABCDEF'' \<and>
   Reveal ''0123456789ABCDEF'' ''10.0.0.1'' True
     (table_of [Secret_zero\<lparr>Secret := ''0123456789ABCDEF'', Message := ''aGk=''\<rparr>]) =
   ((Revealed_zero, Some (errors_New ''bad id'')),
    table_of [Secret_zero\<lparr>Secret := ''0123456789ABCDEF'', Message := ''aGk=''\<rparr>])"
proof -
  have "MatchString ''0123456789ABCDEF''"
    by (simp add: check_defs)
  then show ?thesis
    by (simp add: Reveal_bad_id hex_digit_def lower_hex_digit_def in_range_def)
qed

text \<open>
  C9, amended. A 16-character identifier all of whose characters are digits or lowercase
  letters \<open>a-f\<close> passes the check: \<open>Reveal\<close> does not return \<open>bad id\<close>, and the first thing
  it does is to send the query for the identifier. An identifier with an uppercase letter
  \<open>A-F\<close> in it is refused with \<open>bad id\<close>, and the table is returned as it was.
\<close>

theorem Reveal_accepts_lowercase_hex:
  "(length ident = 16 \<and> list_all lower_hex_digit ident \<longrightarrow>
      snd (fst (Reveal ident ip reveal db)) \<noteq> Some (errors_New ''bad id'') \<and>
      (\<exists>rest. issued db (snd (Reveal ident ip reveal db)) = Query ident # rest)) \<and>
   (list_ex (in_range CHR ''A'' CHR ''F'') ident \<longrightarrow>
      Reveal ident ip reveal db = ((Revealed_zero, Some (errors_New ''bad id'')), db))"
  using Reveal_not_bad_id [of ident ip reveal db] Reveal_queries_first [of ident db ip reveal]
    lower_hex_not_MatchString [of ident] upper_hex_MatchString [of ident]
    Reveal_bad_id [of ident ip reveal db]
  by blast

theorem Reveal_accepts_lowercase_hex_witness:
  "fst (Reveal ''0123456789abcdef'' ''10.0.0.1'' True (table_of [])) =
     (Revealed_zero, Some (errors_New ''no items found'')) \<and>
   issued (table_of []) (snd (Reveal ''0123456789abcdef'' ''10.0.0.1'' True (table_of []))) =
     [Query ''0123456789abcdef''] \<and>
   Reveal ''0123456789abcdeF'' ''10.0.0.1'' True (table_of []) =
     ((Revealed_zero, Some (errors_New ''bad id'')), table_of [])"
proof -
  have lower: "length ''0123456789abcdef'' = 16 \<and> list_all lower_hex_digit ''0123456789abcdef''"
    by (simp add: lower_hex_digit_def in_range_def)
  have upper: "list_ex (in_range CHR ''A'' CHR ''F'') ''0123456789abcdeF''"
    by (simp add: in_range_def)
  have absent: "Reveal ''0123456789abcdef'' ''10.0.0.1'' True (table_of []) =
     ((Revealed_zero, Some (errors_New ''no items found'')),
      (table_of [])\<lparr>requests := requests (table_of []) @ [Query ''0123456789abcdef'']\<rparr>)"
    by (rule Reveal_absent) (simp_all add: table_of_def check_defs)
  show ?thesis
    using Reveal_accepts_lowercase_hex [of "''0123456789abcdef''" "''10.0.0.1''" True "table_of []"]
      Reveal_accepts_lowercase_hex [of "''0123456789abcdeF''" "''10.0.0.1''" True "table_of []"]
      lower upper absent
    by (simp add: issued_append)
qed

text \<open>
  C10. The identifier of sixteen underscores has the length 16 and no hexadecimal digit,
  and the pattern does not match it: the underscore is a word character and is no letter.
  So \<open>Reveal\<close> does not return \<open>bad id\<close> for it, whatever the address, the mode and the
  table, and sends the query for it.
\<close>

theorem Reveal_accepts_underscores:
  "length ''________________'' = 16 \<and>
   \<not> list_ex hex_digit ''________________'' \<and>
   \<not> MatchString ''________________'' \<and>
   snd (fst (Reveal ''________________'' ip reveal db)) \<noteq> Some (errors_New ''bad id'') \<and>
   (\<exists>rest. issued db (snd (Reveal ''________________'' ip reveal db)) =
      Query ''________________'' # rest)"
proof -
  have ok: "\<not> MatchString ''________________''"
    by (simp add: check_defs)
  have len: "length ''________________'' = 16"
    by simp
  have nohex: "\<not> list_ex hex_digit ''________________''"
    by (simp add: hex_digit_def lower_hex_digit_def in_range_def)
  show ?thesis
    using ok len nohex Reveal_not_bad_id [OF len ok] Reveal_queries_first [OF len ok]
    by blast
qed

theorem Reveal_accepts_underscores_witness:
  "fst (Reveal ''________________'' ''10.0.0.1'' True
     (table_of [Secret_zero\<lparr>Secret := ''________________'', Message := ''aGk=''\<rparr>])) =
   (Revealed_zero\<lparr>Revealed_Secret := ''aGk='', Revealed_Exists := True\<rparr>, None) \<and>
   issued (table_of [Secret_zero\<lparr>Secret := ''________________'', Message := ''aGk=''\<rparr>])
     (snd (Reveal ''________________'' ''10.0.0.1'' True
        (table_of [Secret_zero\<lparr>Secret := ''________________'', Message := ''aGk=''\<rparr>]))) =
   [Query ''________________'', DeleteItem ''________________'']"
proof -
  let ?j = "Secret_zero\<lparr>Secret := ''________________'', Message := ''aGk=''\<rparr>"
  have found: "looked_up ''________________'' ''10.0.0.1'' (table_of [?j]) ?j"
    by (simp add: looked_up_def table_of_def Secret_zero_def check_defs)
  have decoded: "DecodeString ''aGk='' = Some [104, 105]"
    by (simp add: decode_defs)
  have "Reveal ''________________'' ''10.0.0.1'' True (table_of [?j]) =
    ((Revealed_zero\<lparr>Revealed_Secret := ''aGk='', Revealed_Exists := True\<rparr>, None),
     (table_of [?j])\<lparr>requests := requests (table_of [?j]) @
         [Query ''________________'', DeleteItem ''________________''],
       items := (items (table_of [?j]))(''________________'' := None)\<rparr>)"
    by (subst Reveal_consume [OF found]) (simp add: decoded table_of_def Revealed_zero_def Secret_zero_def)
  then show ?thesis
    using Reveal_accepts_underscores [of "''10.0.0.1''" True "table_of [?j]"]
    by (simp add: issued_append_items)
qed

subsection \<open>Reveal: the existence check\<close>

text \<open>
  C5. With \<open>reveal = False\<close>, whatever the identifier, the address and the table: the
  items of the table after the call are the items before it, and every request that the
  call has sent is the query for the identifier, so there is no delete and no write. When
  the call gets past the identifier check, the lookup and the origin check with the item
  \<open>j\<close>, it returns no error, and the response is the zero value with \<open>Exists\<close> set if the
  identifier of \<open>j\<close> is the requested one, and the zero value, with \<open>Exists\<close> false,
  if it is not; the payload is empty in both cases, and the query is the one request
  that was sent.
\<close>

theorem Reveal_check_has_no_effect:
  "items (snd (Reveal ident ip False db)) = items db \<and>
   list_all (\<lambda>c. c = Query ident) (issued db (snd (Reveal ident ip False db))) \<and>
   (looked_up ident ip db j \<longrightarrow>
      fst (Reveal ident ip False db) =
        (if Secret j = ident then Revealed_zero\<lparr>Revealed_Exists := True\<rparr> else Revealed_zero,
         None) \<and>
      Revealed_Secret (fst (fst (Reveal ident ip False db))) = [] \<and>
      issued db (snd (Reveal ident ip False db)) = [Query ident])"
proof -
  have frame: "items (snd (Reveal ident ip False db)) = items db"
    using Reveal_False_frame [of ident ip db] by simp
  have sent: "list_all (\<lambda>c. c = Query ident) (issued db (snd (Reveal ident ip False db)))"
    using Reveal_False_frame [of ident ip db] by auto
  have found: "looked_up ident ip db j \<longrightarrow>
      fst (Reveal ident ip False db) =
        (if Secret j = ident then Revealed_zero\<lparr>Revealed_Exists := True\<rparr> else Revealed_zero,
         None) \<and>
      Revealed_Secret (fst (fst (Reveal ident ip False db))) = [] \<and>
      issued db (snd (Reveal ident ip False db)) = [Query ident]"
    by (simp add: Reveal_check issued_append Revealed_zero_def)
  from frame sent found show ?thesis
    by blast
qed

theorem Reveal_check_has_no_effect_witness:
  "fst (Reveal ''0123456789abcdef'' ''10.0.0.1'' False
     (table_of [Secret_zero\<lparr>Secret := ''0123456789abcdef'', Message := ''aGk='', Ip := ''10.0.0.1''\<rparr>])) =
   (Revealed_zero\<lparr>Revealed_Exists := True\<rparr>, None) \<and>
   issued
     (table_of [Secret_zero\<lparr>Secret := ''0123456789abcdef'', Message := ''aGk='', Ip := ''10.0.0.1''\<rparr>])
     (snd (Reveal ''0123456789abcdef'' ''10.0.0.1'' False
       (table_of [Secret_zero\<lparr>Secret := ''0123456789abcdef'', Message := ''aGk='', Ip := ''10.0.0.1''\<rparr>]))) =
   [Query ''0123456789abcdef''] \<and>
   items (snd (Reveal ''0123456789abcdef'' ''10.0.0.1'' False
     (table_of [Secret_zero\<lparr>Secret := ''0123456789abcdef'', Message := ''aGk='', Ip := ''10.0.0.1''\<rparr>])))
     ''0123456789abcdef'' =
   Some (Secret_zero\<lparr>Secret := ''0123456789abcdef'', Message := ''aGk='', Ip := ''10.0.0.1''\<rparr>) \<and>
   fst (Reveal ''0123456789abcdef'' ''10.0.0.1'' False
     ((table_of [])\<lparr>items := [''0123456789abcdef'' \<mapsto> Secret_zero\<lparr>Secret := ''fedcba9876543210''\<rparr>]\<rparr>)) =
   (Revealed_zero, None)"
proof -
  let ?j = "Secret_zero\<lparr>Secret := ''0123456789abcdef'', Message := ''aGk='', Ip := ''10.0.0.1''\<rparr>"
  let ?k = "Secret_zero\<lparr>Secret := ''fedcba9876543210''\<rparr>"
  let ?db = "(table_of [])\<lparr>items := [''0123456789abcdef'' \<mapsto> ?k]\<rparr>"
  have same: "looked_up ''0123456789abcdef'' ''10.0.0.1'' (table_of [?j]) ?j"
    by (simp add: looked_up_def table_of_def Secret_zero_def check_defs)
  have other: "looked_up ''0123456789abcdef'' ''10.0.0.1'' ?db ?k"
    by (simp add: looked_up_def table_of_def Secret_zero_def check_defs)
  show ?thesis
    using Reveal_check_has_no_effect [of "''0123456789abcdef''" "''10.0.0.1''" "table_of [?j]" ?j]
      Reveal_check_has_no_effect [of "''0123456789abcdef''" "''10.0.0.1''" ?db ?k] same other
    by (simp add: Secret_zero_def table_of_def)
qed

subsection \<open>Reveal: decoding comes before the delete\<close>

text \<open>
  C3. With \<open>reveal = True\<close>, when the call gets past the identifier check, the lookup and
  the origin check with the item \<open>j\<close>: if the stored payload does not decode, \<open>Reveal\<close>
  returns the error of line 176 and has sent the query only; if it decodes to no byte at
  all, \<open>Reveal\<close> returns the error of line 179 and has sent the query only; and a delete
  is among the requests sent only if the payload decodes to at least one byte. Whenever
  \<open>Reveal\<close> returns no error, it has sent the query and then exactly one delete, \<open>Exists\<close>
  is set, and the payload in the response is not empty and decodes to at least one byte.
\<close>

theorem Reveal_decodes_before_delete:
  "(looked_up ident ip db j \<longrightarrow>
      (DecodeString (Message j) = None \<longrightarrow>
         fst (Reveal ident ip True db) = (Revealed_zero, Some could_not_decode) \<and>
         issued db (snd (Reveal ident ip True db)) = [Query ident]) \<and>
      (DecodeString (Message j) = Some [] \<longrightarrow>
         fst (Reveal ident ip True db) =
           (Revealed_zero,
            Some (errors_New ''could not decode secret, got 0 chars and error: <nil>'')) \<and>
         issued db (snd (Reveal ident ip True db)) = [Query ident]) \<and>
      (DeleteItem ident \<in> set (issued db (snd (Reveal ident ip True db))) \<longrightarrow>
         (\<exists>secret. DecodeString (Message j) = Some secret \<and> secret \<noteq> []))) \<and>
   (snd (fst (Reveal ident ip True db)) = None \<longrightarrow>
      issued db (snd (Reveal ident ip True db)) = [Query ident, DeleteItem ident] \<and>
      Revealed_Exists (fst (fst (Reveal ident ip True db))) \<and>
      Revealed_Secret (fst (fst (Reveal ident ip True db))) \<noteq> [] \<and>
      (\<exists>secret. DecodeString (Revealed_Secret (fst (fst (Reveal ident ip True db)))) = Some secret \<and>
         secret \<noteq> []))"
proof -
  have failed: "DecodeString (Message j) = None \<longrightarrow>
         fst (Reveal ident ip True db) = (Revealed_zero, Some could_not_decode) \<and>
         issued db (snd (Reveal ident ip True db)) = [Query ident]"
    if "looked_up ident ip db j"
    by (simp add: Reveal_consume [OF that] issued_append)
  have empty: "DecodeString (Message j) = Some [] \<longrightarrow>
         fst (Reveal ident ip True db) =
           (Revealed_zero,
            Some (errors_New ''could not decode secret, got 0 chars and error: <nil>'')) \<and>
         issued db (snd (Reveal ident ip True db)) = [Query ident]"
    if "looked_up ident ip db j"
    by (simp add: Reveal_consume [OF that] issued_append)
  have only_after: "DeleteItem ident \<in> set (issued db (snd (Reveal ident ip True db))) \<longrightarrow>
         (\<exists>secret. DecodeString (Message j) = Some secret \<and> secret \<noteq> [])"
    if "looked_up ident ip db j"
    by (auto simp: Reveal_consume [OF that] issued_append issued_append_items
        split: option.splits if_splits)
  have nonempty: "Revealed_Secret (fst (fst (Reveal ident ip True db))) \<noteq> []"
    if "snd (fst (Reveal ident ip True db)) = None"
    using Reveal_success [OF that] DecodeString_Nil by auto
  from failed empty only_after nonempty Reveal_success [of ident ip db] show ?thesis
    by blast
qed

theorem Reveal_decodes_before_delete_witness:
  "fst (Reveal ''0123456789abcdef'' ''10.0.0.1'' True
     (table_of [Secret_zero\<lparr>Secret := ''0123456789abcdef'', Message := ''not base64!''\<rparr>])) =
   (Revealed_zero, Some could_not_decode) \<and>
   issued (table_of [Secret_zero\<lparr>Secret := ''0123456789abcdef'', Message := ''not base64!''\<rparr>])
     (snd (Reveal ''0123456789abcdef'' ''10.0.0.1'' True
       (table_of [Secret_zero\<lparr>Secret := ''0123456789abcdef'', Message := ''not base64!''\<rparr>]))) =
   [Query ''0123456789abcdef''] \<and>
   fst (Reveal ''0123456789abcdef'' ''10.0.0.1'' True
     (table_of [Secret_zero\<lparr>Secret := ''0123456789abcdef''\<rparr>])) =
   (Revealed_zero, Some (errors_New ''could not decode secret, got 0 chars and error: <nil>'')) \<and>
   issued (table_of [Secret_zero\<lparr>Secret := ''0123456789abcdef'', Message := ''aGk=''\<rparr>])
     (snd (Reveal ''0123456789abcdef'' ''10.0.0.1'' True
       (table_of [Secret_zero\<lparr>Secret := ''0123456789abcdef'', Message := ''aGk=''\<rparr>]))) =
   [Query ''0123456789abcdef'', DeleteItem ''0123456789abcdef'']"
proof -
  let ?bad = "Secret_zero\<lparr>Secret := ''0123456789abcdef'', Message := ''not base64!''\<rparr>"
  let ?none = "Secret_zero\<lparr>Secret := ''0123456789abcdef''\<rparr>"
  let ?good = "Secret_zero\<lparr>Secret := ''0123456789abcdef'', Message := ''aGk=''\<rparr>"
  have bad: "looked_up ''0123456789abcdef'' ''10.0.0.1'' (table_of [?bad]) ?bad"
    by (simp add: looked_up_def table_of_def Secret_zero_def check_defs)
  have none: "looked_up ''0123456789abcdef'' ''10.0.0.1'' (table_of [?none]) ?none"
    by (simp add: looked_up_def table_of_def Secret_zero_def check_defs)
  have good: "looked_up ''0123456789abcdef'' ''10.0.0.1'' (table_of [?good]) ?good"
    by (simp add: looked_up_def table_of_def Secret_zero_def check_defs)
  have bad_decode: "DecodeString (Message ?bad) = None"
    by (simp add: Secret_zero_def decode_defs)
  have none_decode: "DecodeString (Message ?none) = Some []"
    by (simp add: Secret_zero_def decode_defs)
  have succeeds: "snd (fst (Reveal ''0123456789abcdef'' ''10.0.0.1'' True (table_of [?good]))) = None"
    by (subst Reveal_consume [OF good]) (simp add: Secret_zero_def table_of_def decode_defs)
  show ?thesis
    using Reveal_decodes_before_delete [of "''0123456789abcdef''" "''10.0.0.1''" "table_of [?bad]" ?bad]
      Reveal_decodes_before_delete [of "''0123456789abcdef''" "''10.0.0.1''" "table_of [?none]" ?none]
      Reveal_decodes_before_delete [of "''0123456789abcdef''" "''10.0.0.1''" "table_of [?good]" ?good]
      bad none good bad_decode none_decode succeeds
    by simp
qed

subsection \<open>Reveal: absence and origin mismatch\<close>

text \<open>
  C4. Take an identifier that passes the check and two tables on which no call fails:
  one that stores nothing under the identifier, and one that stores an item whose origin
  address is not empty and is not the requester's. On the first \<open>Reveal\<close> returns
  \<open>errors.New("no items found")\<close> (line 149), on the second \<open>errors.New("not found")\<close>
  (line 162). The response is the zero value both times, but the two errors are not the
  same: their messages differ.
\<close>

theorem absence_and_mismatch_differ:
  assumes "length ident = 16" and "\<not> MatchString ident"
    and "fails db = (\<lambda>c. None)" and "items db ident = None"
    and "fails db' = (\<lambda>c. None)" and "items db' ident = Some j"
    and "Ip j \<noteq> []" and "Ip j \<noteq> ip"
  shows "fst (Reveal ident ip reveal db) = (Revealed_zero, Some (errors_New ''no items found'')) \<and>
     fst (Reveal ident ip reveal db') = (Revealed_zero, Some (errors_New ''not found'')) \<and>
     snd (fst (Reveal ident ip reveal db)) \<noteq> snd (fst (Reveal ident ip reveal db'))"
  using assms by (simp add: Reveal_absent Reveal_mismatch)

theorem absence_and_mismatch_differ_witness:
  "fst (Reveal ''0123456789abcdef'' ''10.0.0.2'' True (table_of [])) =
     (Revealed_zero, Some (errors_New ''no items found'')) \<and>
   fst (Reveal ''0123456789abcdef'' ''10.0.0.2'' True
     (table_of [Secret_zero\<lparr>Secret := ''0123456789abcdef'', Message := ''aGk='', Ip := ''10.0.0.1''\<rparr>])) =
     (Revealed_zero, Some (errors_New ''not found''))"
proof -
  let ?j = "Secret_zero\<lparr>Secret := ''0123456789abcdef'', Message := ''aGk='', Ip := ''10.0.0.1''\<rparr>"
  have ok: "\<not> MatchString ''0123456789abcdef''"
    by (simp add: check_defs)
  have stored: "items (table_of [?j]) ''0123456789abcdef'' = Some ?j"
    by (simp add: table_of_def Secret_zero_def)
  have origin: "Ip ?j \<noteq> []" "Ip ?j \<noteq> ''10.0.0.2''"
    by (simp_all add: Secret_zero_def)
  show ?thesis
    using absence_and_mismatch_differ [of "''0123456789abcdef''" "table_of []" "table_of [?j]" ?j
        "''10.0.0.2''" True, OF _ ok _ _ _ stored origin]
    by (simp add: table_of_def)
qed

subsection \<open>Save and then Reveal\<close>

text \<open>
  C1, amended. Let the record have an identifier that passes the check and an origin
  address that is empty or the requester's, let the payload \<open>P\<close> decode to at least one
  byte, and let no call fail. Then \<open>Save\<close> returns no error; \<open>Reveal\<close> of the identifier
  with \<open>reveal = True\<close> on the table that \<open>Save\<close> leaves returns no error, the payload \<open>P\<close>
  as it was saved, and \<open>Exists\<close> set; and a second such \<open>Reveal\<close>, from any address, on
  the table that the first leaves returns the zero response and
  \<open>errors.New("no items found")\<close>.
\<close>

theorem Save_then_Reveal_once:
  assumes "length (Secret s) = 16" and "\<not> MatchString (Secret s)"
    and "Ip s = [] \<or> Ip s = ip"
    and "DecodeString P = Some secret" and "secret \<noteq> []"
    and "fails db = (\<lambda>c. None)"
  shows "let saved = Save now P s db;
             first = Reveal (Secret s) ip True (snd saved);
             second = Reveal (Secret s) ip' True (snd first)
         in snd (fst saved) = None \<and>
            snd (fst first) = None \<and>
            Revealed_Secret (fst (fst first)) = P \<and>
            Revealed_Exists (fst (fst first)) \<and>
            fst second = (Revealed_zero, Some (errors_New ''no items found''))"
proof -
  let ?saved = "Save now P s db"
  let ?j = "fst (fst ?saved)"
  let ?db1 = "snd ?saved"
  let ?first = "Reveal (Secret s) ip True ?db1"
  let ?db2 = "snd ?first"
  have j: "?j = (if Expire s = 0 then s\<lparr>Expire := Unix now + 24 * 3600\<rparr> else s)\<lparr>Message := P\<rparr>"
    by (rule Save_record)
  have stored: "snd (fst ?saved) = None" "fails ?db1 = (\<lambda>c. None)"
    "items ?db1 = (items db)(Secret s \<mapsto> ?j)"
    using Save_stores [OF assms(6)] by simp_all
  have found: "looked_up (Secret s) ip ?db1 ?j"
    using assms(1-3) stored by (simp add: looked_up_def j)
  have msg: "Message ?j = P"
    by (simp add: j)
  have first: "?first =
     ((\<lparr>Revealed_Secret = P, Revealed_Exists = True,
        Revealed_HasPass = HasPass ?j, Revealed_Hint = Hint ?j, Revealed_Tag = Tag ?j,
        Revealed_Iv = Iv ?j, Revealed_PwTag = PwTag ?j, Revealed_PwIv = PwIv ?j\<rparr>, None),
      ?db1\<lparr>requests := requests ?db1 @ [Query (Secret s), DeleteItem (Secret s)],
         items := (items ?db1)(Secret s := None)\<rparr>)"
    using assms(4,5) stored(2) by (simp add: Reveal_consume [OF found] msg)
  have gone: "items ?db2 (Secret s) = None" "fails ?db2 = (\<lambda>c. None)"
    using stored(2) by (simp_all add: first)
  have second: "Reveal (Secret s) ip' True ?db2 =
     ((Revealed_zero, Some (errors_New ''no items found'')),
      ?db2\<lparr>requests := requests ?db2 @ [Query (Secret s)]\<rparr>)"
    using assms(1,2) gone by (intro Reveal_absent) simp_all
  show ?thesis
    using stored(1) second by (simp add: Let_def first)
qed

theorem Save_then_Reveal_once_witness:
  "snd (fst (Save 1700000000000000000 ''aGk='' (Secret_zero\<lparr>Secret := ''0123456789abcdef''\<rparr>)
      (table_of []))) = None \<and>
   snd (fst (Reveal ''0123456789abcdef'' ''10.0.0.1'' True
     (snd (Save 1700000000000000000 ''aGk='' (Secret_zero\<lparr>Secret := ''0123456789abcdef''\<rparr>)
        (table_of []))))) = None \<and>
   Revealed_Secret (fst (fst (Reveal ''0123456789abcdef'' ''10.0.0.1'' True
     (snd (Save 1700000000000000000 ''aGk='' (Secret_zero\<lparr>Secret := ''0123456789abcdef''\<rparr>)
        (table_of [])))))) = ''aGk='' \<and>
   Revealed_Exists (fst (fst (Reveal ''0123456789abcdef'' ''10.0.0.1'' True
     (snd (Save 1700000000000000000 ''aGk='' (Secret_zero\<lparr>Secret := ''0123456789abcdef''\<rparr>)
        (table_of [])))))) \<and>
   fst (Reveal ''0123456789abcdef'' ''10.0.0.1'' True
     (snd (Reveal ''0123456789abcdef'' ''10.0.0.1'' True
       (snd (Save 1700000000000000000 ''aGk='' (Secret_zero\<lparr>Secret := ''0123456789abcdef''\<rparr>)
          (table_of [])))))) =
   (Revealed_zero, Some (errors_New ''no items found''))"
proof -
  let ?s = "Secret_zero\<lparr>Secret := ''0123456789abcdef''\<rparr>"
  have ident: "Secret ?s = ''0123456789abcdef''"
    by simp
  have len: "length (Secret ?s) = 16"
    by simp
  have ok: "\<not> MatchString (Secret ?s)"
    by (simp add: check_defs)
  have origin: "Ip ?s = [] \<or> Ip ?s = ''10.0.0.1''"
    by (simp add: Secret_zero_def)
  have decoded: "DecodeString ''aGk='' = Some [104, 105]"
    by (simp add: decode_defs)
  have nofault: "fails (table_of []) = (\<lambda>c. None)"
    by (simp add: table_of_def)
  show ?thesis
    using Save_then_Reveal_once [OF len ok origin decoded _ nofault,
        of 1700000000000000000 "''10.0.0.1''"]
    by (simp add: Let_def)
qed

text \<open>
  C1, as the specification has it, speaks of every payload string. \<open>Save\<close> stores any
  string, but \<open>Reveal\<close> gives back only what decodes to at least one byte: after saving
  the empty string (the encoding of no bytes) it returns the error of line 179, and after
  saving \<open>not base64!\<close> the error of line 176, with an empty response both times.
\<close>

theorem undecodable_payload_is_not_revealed:
  "snd (fst (Save 1700000000000000000 [] (Secret_zero\<lparr>Secret := ''0123456789abcdef''\<rparr>)
      (table_of []))) = None \<and>
   fst (Reveal ''0123456789abcdef'' ''10.0.0.1'' True
     (snd (Save 1700000000000000000 [] (Secret_zero\<lparr>Secret := ''0123456789abcdef''\<rparr>)
        (table_of [])))) =
   (Revealed_zero, Some (errors_New ''could not decode secret, got 0 chars and error: <nil>'')) \<and>
   snd (fst (Save 1700000000000000000 ''not base64!''
      (Secret_zero\<lparr>Secret := ''0123456789abcdef''\<rparr>) (table_of []))) = None \<and>
   fst (Reveal ''0123456789abcdef'' ''10.0.0.1'' True
     (snd (Save 1700000000000000000 ''not base64!''
        (Secret_zero\<lparr>Secret := ''0123456789abcdef''\<rparr>) (table_of [])))) =
   (Revealed_zero, Some could_not_decode)"
proof -
  let ?s = "Secret_zero\<lparr>Secret := ''0123456789abcdef''\<rparr>"
  have len: "length (Secret ?s) = 16"
    by simp
  have ok: "\<not> MatchString (Secret ?s)"
    by (simp add: check_defs)
  have origin: "Ip ?s = [] \<or> Ip ?s = ''10.0.0.1''"
    by (simp add: Secret_zero_def)
  have nofault: "fails (table_of []) = (\<lambda>c. None)"
    by (simp add: table_of_def)
  have saved: "snd (fst (Save 1700000000000000000 P ?s (table_of []))) = None" for P
    using Save_stores [OF nofault] by simp
  have found: "looked_up ''0123456789abcdef'' ''10.0.0.1''
      (snd (Save 1700000000000000000 P ?s (table_of [])))
      (fst (fst (Save 1700000000000000000 P ?s (table_of []))))" for P
    using Save_looked_up [OF len ok origin nofault] by simp
  have garbage: "DecodeString ''not base64!'' = None"
    by (simp add: decode_defs)
  have empty: "fst (Reveal ''0123456789abcdef'' ''10.0.0.1'' True
      (snd (Save 1700000000000000000 [] ?s (table_of [])))) =
    (Revealed_zero, Some (errors_New ''could not decode secret, got 0 chars and error: <nil>''))"
    by (subst Reveal_consume [OF found]) (simp add: Save_Message DecodeString_Nil)
  have bad: "fst (Reveal ''0123456789abcdef'' ''10.0.0.1'' True
      (snd (Save 1700000000000000000 ''not base64!'' ?s (table_of [])))) =
    (Revealed_zero, Some could_not_decode)"
    by (subst Reveal_consume [OF found]) (simp add: Save_Message garbage)
  from saved empty bad show ?thesis
    by simp
qed

subsection \<open>Save: the default expiry\<close>

text \<open>
  C7. \<open>Save\<close> leaves an \<open>Expire\<close> that is not zero as it is, and sets an \<open>Expire\<close> that
  is zero to the Unix time of the present instant plus 24 hours. \<open>NewSecret\<close> sets
  \<open>Expire\<close> to the Unix time of the instant of creation \<open>t0\<close> plus 72 hours; unless that
  sum is the Unix time zero, a \<open>Save\<close> of the new record, at whatever instant, keeps it.
  When \<open>Save\<close> returns no error, the record it returns is the item stored under the
  identifier.
\<close>

theorem Save_keeps_nonzero_expiry:
  "(Expire s \<noteq> 0 \<longrightarrow> Expire (fst (fst (Save now P s db))) = Expire s) \<and>
   (Expire s = 0 \<longrightarrow> Expire (fst (fst (Save now P s db))) = Unix now + 24 * 3600) \<and>
   (Unix t0 + 72 * 3600 \<noteq> 0 \<longrightarrow>
      Expire (NewSecret t0 rid) = Unix t0 + 72 * 3600 \<and>
      Expire (fst (fst (Save now P (NewSecret t0 rid) db))) = Unix t0 + 72 * 3600) \<and>
   (snd (fst (Save now P s db)) = None \<longrightarrow>
      items (snd (Save now P s db)) (Secret s) = Some (fst (fst (Save now P s db))))"
proof -
  have created: "Expire (NewSecret t0 rid) = Unix t0 + 72 * 3600"
    by (simp add: NewSecret_def Let_def Secret_zero_def Unix_Add_Hour split: option.splits)
  show ?thesis
    using Save_written [of now P s db]
    by (simp add: Save_record created)
qed

theorem Save_keeps_nonzero_expiry_witness:
  "Expire (NewSecret 1700000000123456789 (''0123456789abcdef'', None)) = 1700259200 \<and>
   Expire (fst (fst (Save 1700000009000000000 ''aGk=''
     (NewSecret 1700000000123456789 (''0123456789abcdef'', None)) (table_of [])))) = 1700259200 \<and>
   Expire (fst (fst (Save 1700000009000000000 ''aGk=''
     (Secret_zero\<lparr>Secret := ''0123456789abcdef''\<rparr>) (table_of [])))) = 1700086409 \<and>
   Expire (fst (fst (Save 1700000009000000000 ''aGk=''
     (Secret_zero\<lparr>Secret := ''0123456789abcdef'', Expire := 1\<rparr>) (table_of [])))) = 1"
  using Save_keeps_nonzero_expiry [of "NewSecret 1700000000123456789 (''0123456789abcdef'', None)"
      1700000009000000000 "''aGk=''" "table_of []" 1700000000123456789 "(''0123456789abcdef'', None)"]
    Save_keeps_nonzero_expiry [of "Secret_zero\<lparr>Secret := ''0123456789abcdef''\<rparr>"
      1700000009000000000 "''aGk=''" "table_of []" 0 "([], None)"]
    Save_keeps_nonzero_expiry [of "Secret_zero\<lparr>Secret := ''0123456789abcdef'', Expire := 1\<rparr>"
      1700000009000000000 "''aGk=''" "table_of []" 0 "([], None)"]
  by (simp add: Unix_def Secret_zero_def)

end
